theory Spec2Isabelle
  imports Main
begin

section \<open>The document store\<close>

text \<open>
  The server keeps all durable state in MongoDB: a registry collection \<open>games\<close> in the
  database \<open>games\<close>, and one database \<open>'game-' + code\<close> per session with the
  collections \<open>status\<close> and \<open>players\<close>. Only the part of the query language that the
  server uses is modelled: equality filters, \<open>findOne\<close>, \<open>find({}).toArray()\<close>,
  \<open>insertOne\<close>, \<open>updateOne\<close> with \<open>$set\<close>, \<open>deleteOne\<close> and \<open>dropDatabase\<close>.

  A stored document is seen by a filter as a list of fields. A filter gives, for each field
  it names, the value the field must have; the value \<open>None\<close> is JavaScript's
  \<open>undefined\<close>, which the driver sends as \<open>null\<close> and which matches the documents
  that lack the field (no stored field is \<open>null\<close>). A number and a string are never
  equal. Collections are lists in insertion order, the order in which \<open>findOne\<close>,
  \<open>updateOne\<close> and \<open>deleteOne\<close> look for their first match.

  Store operations succeed, except where a failure is a parameter (\<open>getGameStatus\<close> and
  the expiry sweep).
\<close>

datatype val = VNum int | VStr string | VBool bool | VDate int

type_synonym doc = "(string \<times> val) list"

type_synonym query = "(string \<times> val option) list"

definition matches :: "query \<Rightarrow> doc \<Rightarrow> bool" where
  "matches q d = list_all (\<lambda>(k, v). map_of d k = v) q"

definition findOne :: "('a \<Rightarrow> doc) \<Rightarrow> query \<Rightarrow> 'a list \<Rightarrow> 'a option" where
  "findOne asDoc q xs = find (\<lambda>x. matches q (asDoc x)) xs"

fun updateOne :: "('a \<Rightarrow> doc) \<Rightarrow> query \<Rightarrow> ('a \<Rightarrow> 'a) \<Rightarrow> 'a list \<Rightarrow> 'a list" where
  "updateOne asDoc q upd [] = []"
| "updateOne asDoc q upd (x # xs) =
     (if matches q (asDoc x) then upd x # xs else x # updateOne asDoc q upd xs)"

fun deleteOne :: "('a \<Rightarrow> doc) \<Rightarrow> query \<Rightarrow> 'a list \<Rightarrow> 'a list" where
  "deleteOne asDoc q [] = []"
| "deleteOne asDoc q (x # xs) =
     (if matches q (asDoc x) then xs else x # deleteOne asDoc q xs)"

definition insertOne :: "'a \<Rightarrow> 'a list \<Rightarrow> 'a list" where
  "insertOne x xs = xs @ [x]"

subsection \<open>The three kinds of document\<close>

text \<open>
  A player document is written by \<open>joinGame\<close> with the fields \<open>name\<close>, \<open>order\<close> and
  \<open>hashedKey\<close>; \<open>socketClientId\<close> is absent until an update sets it. A status document is
  written by \<open>createGame\<close> with \<open>playing\<close> and \<open>lastSignificantChange\<close> (a date, in
  milliseconds). A registry document holds the numeric \<open>code\<close> only.
\<close>

record player =
  name :: string
  order :: nat
  hashedKey :: string
  socketClientId :: "string option"

record status =
  playing :: bool
  lastSignificantChange :: int

definition playerDoc :: "player \<Rightarrow> doc" where
  "playerDoc p =
     [(''name'', VStr (player.name p)), (''order'', VNum (int (order p))),
      (''hashedKey'', VStr (hashedKey p))]
     @ (case socketClientId p of None \<Rightarrow> [] | Some s \<Rightarrow> [(''socketClientId'', VStr s)])"

definition statusDoc :: "status \<Rightarrow> doc" where
  "statusDoc s =
     [(''playing'', VBool (playing s)),
      (''lastSignificantChange'', VDate (lastSignificantChange s))]"

definition gameDoc :: "int \<Rightarrow> doc" where
  "gameDoc c = [(''code'', VNum c)]"

subsection \<open>Databases\<close>

text \<open>
  Session codes are integers, taken as exact. The database \<open>'game-' + code\<close> is named
  after the rendering of the code as it was given, which is injective, so databases are
  indexed by the code. A database that was never written, or was dropped, has empty
  collections.
\<close>

record gameDb =
  status :: "status list"
  players :: "player list"

record store =
  games :: "int list"
  gameDbOf :: "int \<Rightarrow> gameDb"

definition emptyDb :: gameDb where
  "emptyDb = \<lparr>status = [], players = []\<rparr>"

definition emptyStore :: store where
  "emptyStore = \<lparr>games = [], gameDbOf = (\<lambda>c. emptyDb)\<rparr>"

text \<open>
  \<open>parseInt\<close> renders its argument and reads the digits at the front. A number below
  \<open>10^21\<close> in absolute value is rendered in plain decimal and comes back as it is; from
  \<open>10^21\<close> on the rendering is \<open>d.ddde+k\<close>, of which \<open>parseInt\<close> reads the sign and the
  first digit only.
\<close>

fun leadingDigit :: "nat \<Rightarrow> nat" where
  "leadingDigit n = (if n < 10 then n else leadingDigit (n div 10))"

definition parseInt :: "int \<Rightarrow> int" where
  "parseInt n =
     (if \<bar>n\<bar> < 10 ^ 21 then n else sgn n * int (leadingDigit (nat \<bar>n\<bar>)))"

definition setStatus :: "int \<Rightarrow> status list \<Rightarrow> store \<Rightarrow> store" where
  "setStatus c ss db = db\<lparr>gameDbOf := (gameDbOf db)(c := (gameDbOf db c)\<lparr>status := ss\<rparr>)\<rparr>"

definition setPlayers :: "int \<Rightarrow> player list \<Rightarrow> store \<Rightarrow> store" where
  "setPlayers c ps db = db\<lparr>gameDbOf := (gameDbOf db)(c := (gameDbOf db c)\<lparr>players := ps\<rparr>)\<rparr>"

definition dropDatabase :: "int \<Rightarrow> store \<Rightarrow> store" where
  "dropDatabase c db = db\<lparr>gameDbOf := (gameDbOf db)(c := emptyDb)\<rparr>"

section \<open>Exceptions\<close>

text \<open>
  Every \<open>UserException\<close> carries a message and a type tag (the empty string unless given).
  \<open>TypeError\<close> is what reading a property of \<open>null\<close> throws; \<open>Error StoreFailure\<close>
  stands for the rejection of a store operation. The messages of the server are the
  constructors of \<open>message\<close>:
  \<^item> \<open>TooManyGames\<close>: There are too many games in progress to start a new one.
  \<^item> \<open>GameDoesNotExist c\<close>: The game \<open>c\<close> does not exist.
  \<^item> \<open>JoinInProgress\<close>: Cannot join game. It is currently in progress.
  \<^item> \<open>NameInUse\<close>: Your chosen name is in use by another player. Please use another name.
  \<^item> \<open>TenPlayers\<close>: There are already 10 players in this game
  \<^item> \<open>AuthGameDoesNotExist\<close>: The game you are trying to enter does not exist
  \<^item> \<open>NotJoined\<close>: You have not yet joined the game properly
  \<^item> \<open>Unauthorized\<close>: Unauthorized
  \<^item> \<open>SameName\<close>: You entered the same name as your current name
  \<^item> \<open>BlankName\<close>: You cannot have a blank name
  \<^item> \<open>RenameInProgress\<close>: Cannot changle player name while game in progress
  \<^item> \<open>PlayerDoesNotExist\<close>: Your current player does not exist
  \<^item> \<open>RemoveInProgress\<close>: Cannot remove player while game in progress
  \<^item> \<open>NotInGame\<close>: The player you try to remove is not in game
  \<^item> \<open>Unexpected\<close>: An unexpected error occurred
\<close>

datatype message =
    TooManyGames
  | GameDoesNotExist int
  | JoinInProgress
  | NameInUse
  | TenPlayers
  | AuthGameDoesNotExist
  | NotJoined
  | Unauthorized
  | SameName
  | BlankName
  | RenameInProgress
  | PlayerDoesNotExist
  | RemoveInProgress
  | NotInGame
  | Unexpected
  | StoreFailure

datatype exn = UserException message string | Error message | TypeError

section \<open>Creating and joining a game\<close>

text \<open>
  \<open>createGame\<close> draws random codes until one is not registered. The draws are given as a
  list; the result is \<open>None\<close> when every draw of the list is taken, that is when the loop
  has not ended yet. \<open>now\<close> is the value of \<open>new Date()\<close>.
\<close>

definition createGame :: "int \<Rightarrow> int list \<Rightarrow> store \<Rightarrow> ((exn + int) \<times> store) option" where
  "createGame now draws db =
     (if length (games db) > 100000 then Some (Inl (Error TooManyGames), db)
      else
        case find (\<lambda>c. findOne gameDoc [(''code'', Some (VNum c))] (games db) = None) draws of
          None \<Rightarrow> None
        | Some code \<Rightarrow>
            Some (Inr code,
              (setStatus code
                 (insertOne \<lparr>playing = False, lastSignificantChange = now\<rparr>
                    (status (gameDbOf db code))) db)
              \<lparr>games := insertOne code (games db)\<rparr>))"

text \<open>
  The credential that \<open>joinGame\<close> returns and that the client later sends with
  \<open>authRequest\<close>.
\<close>

record authKey =
  gameCode :: int
  name :: string
  key :: string

text \<open>
  \<open>joinGame\<close> suspends three times: while its four reads are under way, while the random
  bytes are drawn, and while the insert is under way. Other requests may run at each of
  these points, so the function is given in its parts. \<open>joinGameReads\<close> is the result of
  \<open>Promise.all\<close>, the array \<open>validationDocs\<close>; \<open>joinGameCheck\<close> is the chain of tests
  on that array; \<open>joinGameInsert\<close> is the insert, into the store as it is by then, of a
  player whose \<open>order\<close> comes from the array. \<open>sha256\<close> is the digest and \<open>secret\<close> the
  hex string that \<open>randomBytesHexAsync(32)\<close> returns (the source's local \<open>key\<close>);
  \<open>playerName\<close> and \<open>code\<close> are the source's parameters \<open>name\<close> and \<open>gameCode\<close>.
\<close>

type_synonym validationDocs = "int option \<times> status option \<times> player option \<times> player list"

definition joinGameReads :: "store \<Rightarrow> string \<Rightarrow> int \<Rightarrow> validationDocs" where
  "joinGameReads db playerName code =
     (let gameDb = gameDbOf db code in
        (findOne gameDoc [(''code'', Some (VNum (parseInt code)))] (games db),
         findOne statusDoc [] (status gameDb),
         findOne playerDoc [(''name'', Some (VStr playerName))] (players gameDb),
         players gameDb))"

definition joinGameCheck :: "validationDocs \<Rightarrow> int \<Rightarrow> exn option" where
  "joinGameCheck validationDocs code =
     (case validationDocs of
        (doc0, doc1, doc2, doc3) \<Rightarrow>
          if doc0 = None then Some (UserException (GameDoesNotExist code) '''')
          else
            case doc1 of
              None \<Rightarrow> Some TypeError
            | Some st \<Rightarrow>
                if playing st \<noteq> False then Some (UserException JoinInProgress '''')
                else if doc2 \<noteq> None then Some (UserException NameInUse '''')
                else if length doc3 \<ge> 10 then Some (UserException TenPlayers '''')
                else None)"

definition joinGameInsert ::
  "(string \<Rightarrow> string) \<Rightarrow> string \<Rightarrow> validationDocs \<Rightarrow> string \<Rightarrow> int \<Rightarrow> store \<Rightarrow> store" where
  "joinGameInsert sha256 secret validationDocs playerName code db =
     (case validationDocs of
        (doc0, doc1, doc2, doc3) \<Rightarrow>
          setPlayers code
            (insertOne
               \<lparr>player.name = playerName, order = length doc3 + 1,
                hashedKey = sha256 secret, socketClientId = None\<rparr>
               (players (gameDbOf db code))) db)"

text \<open>
  \<open>joinGame\<close> is a call during which no other request runs: the insert meets the store
  that the reads saw.
\<close>

definition joinGame ::
  "(string \<Rightarrow> string) \<Rightarrow> string \<Rightarrow> store \<Rightarrow> string \<Rightarrow> int \<Rightarrow> (exn + authKey) \<times> store" where
  "joinGame sha256 secret db playerName code =
     (let validationDocs = joinGameReads db playerName code in
        case joinGameCheck validationDocs code of
          Some e \<Rightarrow> (Inl e, db)
        | None \<Rightarrow>
            (Inr \<lparr>gameCode = code, name = playerName, key = secret\<rparr>,
             joinGameInsert sha256 secret validationDocs playerName code db))"

section \<open>Authenticating a connection\<close>

record authReply =
  authenticated :: bool
  name :: string
  gameCode :: int

text \<open>
  \<open>authUser\<close> builds one filter, \<open>query\<close>, from the session code and uses it twice: to
  look the session up in the registry, and as the filter of the update that sets
  \<open>socketClientId\<close> in the players collection. The update runs before the digests are
  compared.
\<close>

definition authUser ::
  "(string \<Rightarrow> string) \<Rightarrow> store \<Rightarrow> string \<Rightarrow> authKey \<Rightarrow> (exn + authReply) \<times> store" where
  "authUser sha256 db socketId authKey =
     (let query = [(''code'', Some (VNum (parseInt (authKey.gameCode authKey))))] in
        if findOne gameDoc query (games db) = None
        then (Inl (UserException AuthGameDoesNotExist ''authError''), db)
        else
          let gameDb = gameDbOf db (authKey.gameCode authKey) in
            case findOne playerDoc [(''name'', Some (VStr (authKey.name authKey)))]
                   (players gameDb) of
              None \<Rightarrow> (Inl (UserException NotJoined ''authError''), db)
            | Some player \<Rightarrow>
                let db' = setPlayers (authKey.gameCode authKey)
                            (updateOne playerDoc query
                               (\<lambda>p. p\<lparr>socketClientId := Some socketId\<rparr>)
                               (players gameDb)) db
                in
                  if sha256 (key authKey) = hashedKey player
                  then (Inr \<lparr>authenticated = True, name = authKey.name authKey,
                             gameCode = authKey.gameCode authKey\<rparr>, db')
                  else (Inl (UserException Unauthorized ''authError''), db'))"

section \<open>The status snapshot\<close>

text \<open>
  One entry of the roster that \<open>getGameStatus\<close> sends: \<open>name\<close>, \<open>order\<close> and
  \<open>gameCode\<close>, each read from the player document (\<open>gameCode\<close> is a field that no
  player document has, so it reads as \<open>undefined\<close>).
\<close>

datatype lobbyPlayer = LobbyPlayer string nat "val option"

text \<open>
  What \<open>getGameStatus\<close> returns: the object \<open>{playing: false, players}\<close>, or
  \<open>undefined\<close> when the function ends without a \<open>return\<close>, or the object
  \<open>{error: new Error('An unexpected error occurred')}\<close> of the \<open>catch\<close> block.
\<close>

datatype gameStatus = Lobby "lobbyPlayer list" | Undefined | InternalError

text \<open>
  The body of the \<open>try\<close> block; \<open>storeFails\<close> says whether one of the two reads is
  rejected by the store.
\<close>

definition getGameStatusTry :: "bool \<Rightarrow> gameDb \<Rightarrow> exn + gameStatus" where
  "getGameStatusTry storeFails gameDb =
     (if storeFails then Inl (Error StoreFailure)
      else
        case findOne statusDoc [] (status gameDb) of
          None \<Rightarrow> Inl TypeError
        | Some st \<Rightarrow>
            if \<not> playing st
            then Inr (Lobby (map (\<lambda>p. LobbyPlayer (player.name p) (order p)
                                     (map_of (playerDoc p) ''gameCode''))
                               (players gameDb)))
            else Inr Undefined)"

definition getGameStatus :: "bool \<Rightarrow> gameDb \<Rightarrow> gameStatus" where
  "getGameStatus storeFails gameDb =
     (case getGameStatusTry storeFails gameDb of
        Inl e \<Rightarrow> InternalError
      | Inr reply \<Rightarrow> reply)"

section \<open>Renaming and removing a player\<close>

text \<open>
  Both functions work on the database \<open>gameDb\<close> that the connection was bound to when it
  authenticated; \<open>code\<close> is that session's code.
\<close>

definition changeName :: "store \<Rightarrow> int \<Rightarrow> string \<Rightarrow> string \<Rightarrow> (exn + string) \<times> store" where
  "changeName db code currentName newName =
     (let gameDb = gameDbOf db code in
        if currentName = newName then (Inl (UserException SameName ''''), db)
        else if newName = '''' then (Inl (UserException BlankName ''''), db)
        else
          case findOne statusDoc [] (status gameDb) of
            None \<Rightarrow> (Inl TypeError, db)
          | Some st \<Rightarrow>
              if playing st then (Inl (UserException RenameInProgress ''''), db)
              else
                let query = [(''name'', Some (VStr currentName))] in
                  case findOne playerDoc query (players gameDb) of
                    None \<Rightarrow> (Inl (UserException PlayerDoesNotExist ''''), db)
                  | Some mongoPlayer \<Rightarrow>
                      (Inr newName,
                       setPlayers code
                         (updateOne playerDoc query (\<lambda>p. p\<lparr>player.name := newName\<rparr>)
                            (players gameDb)) db))"

text \<open>
  The payload of \<open>removalRequest\<close>, as the client sent it. Its \<open>gameCode\<close> may be
  absent (\<open>None\<close>) or any value.
\<close>

record playerToRemove =
  name :: string
  gameCode :: "val option"

definition removePlayer ::
  "store \<Rightarrow> int \<Rightarrow> playerToRemove \<Rightarrow> (exn + playerToRemove \<times> string option) \<times> store" where
  "removePlayer db code toRemove =
     (let gameDb = gameDbOf db code in
        case findOne statusDoc [] (status gameDb) of
          None \<Rightarrow> (Inl TypeError, db)
        | Some st \<Rightarrow>
            if playing st then (Inl (UserException RemoveInProgress ''''), db)
            else
              case findOne playerDoc [(''name'', Some (VStr (playerToRemove.name toRemove)))]
                     (players gameDb) of
                None \<Rightarrow> (Inl (UserException NotInGame ''''), db)
              | Some playerToRemoveMongo \<Rightarrow>
                  let db1 = setPlayers code
                              (deleteOne playerDoc
                                 [(''name'', Some (VStr (playerToRemove.name toRemove)))]
                                 (players gameDb)) db;
                      db2 = (if length (players (gameDbOf db1 code)) = 0
                             then (dropDatabase code db1)
                                    \<lparr>games := deleteOne gameDoc
                                       [(''code'', playerToRemove.gameCode toRemove)]
                                       (games db1)\<rparr>
                             else db1)
                  in (Inr (toRemove, socketClientId playerToRemoveMongo), db2))"

section \<open>The expiry sweep\<close>

text \<open>
  The callback of \<open>setInterval\<close>. The store operations of a sweep may be rejected:
  \<open>listFails\<close> for the listing of the registry, \<open>readFails c\<close> for the read of the status
  of session \<open>c\<close>, \<open>dropFails c\<close> and \<open>deleteFails c\<close> for the two commands that destroy
  it; a rejected command changes nothing. The reads are awaited together by
  \<open>Promise.all\<close>, which rejects as soon as one of them does; the destroy commands are all
  started inside \<open>forEach\<close>, before any of them is awaited.
\<close>

record faults =
  listFails :: bool
  readFails :: "int \<Rightarrow> bool"
  dropFails :: "int \<Rightarrow> bool"
  deleteFails :: "int \<Rightarrow> bool"

definition noFaults :: faults where
  "noFaults = \<lparr>listFails = False, readFails = (\<lambda>c. False), dropFails = (\<lambda>c. False),
               deleteFails = (\<lambda>c. False)\<rparr>"

definition msToLive :: "bool \<Rightarrow> int" where
  "msToLive production = (if production then 86400000 else 1800000)"

definition shouldDie :: "int \<Rightarrow> int \<Rightarrow> status option \<Rightarrow> bool" where
  "shouldDie currentDate ttl st =
     (case st of None \<Rightarrow> True | Some s \<Rightarrow> currentDate - lastSignificantChange s > ttl)"

definition dropCommands :: "faults \<Rightarrow> int \<Rightarrow> store \<Rightarrow> store" where
  "dropCommands f c db =
     (let db1 = (if dropFails f c then db else dropDatabase c db) in
        if deleteFails f c then db1
        else db1\<lparr>games := deleteOne gameDoc [(''code'', Some (VNum c))] (games db1)\<rparr>)"

datatype logLine = DeletedGame int | ConsoleError

definition expirySweep :: "faults \<Rightarrow> int \<Rightarrow> int \<Rightarrow> store \<Rightarrow> logLine list \<times> store" where
  "expirySweep f currentDate ttl db =
     (if listFails f \<or> list_ex (readFails f) (games db) then ([ConsoleError], db)
      else
        let gameStatuses =
              map (\<lambda>c. (c, findOne statusDoc [] (status (gameDbOf db c)))) (games db);
            dying = map fst (filter (\<lambda>(c, st). shouldDie currentDate ttl st) gameStatuses)
        in
          (map DeletedGame dying
             @ (if list_ex (\<lambda>c. dropFails f c \<or> deleteFails f c) dying
                then [ConsoleError] else []),
           fold (dropCommands f) dying db))"

section \<open>Connection handlers\<close>

text \<open>
  The closure of one connection holds \<open>player\<close>, which is \<open>{authenticated: false}\<close>
  (here \<open>None\<close>) until an \<open>authRequest\<close> succeeds and the reply of \<open>authUser\<close>
  afterwards; \<open>gameDb\<close> and \<open>roomAll\<close> are the database and the room of
  \<open>player.gameCode\<close>.
\<close>

datatype event =
    GameStatusEvent gameStatus
  | MyError exn
  | NameChanged string

datatype action =
    SocketJoin int
  | RoomEmit int event
  | SocketEmit event
  | ConsoleErrorExn exn

definition handleSocketError :: "exn \<Rightarrow> action list" where
  "handleSocketError e =
     (case e of
        UserException m t \<Rightarrow> [SocketEmit (MyError e)]
      | _ \<Rightarrow> [ConsoleErrorExn e, SocketEmit (MyError (UserException Unexpected ''''))])"

definition onAuthRequest ::
  "(string \<Rightarrow> string) \<Rightarrow> bool \<Rightarrow> store \<Rightarrow> string \<Rightarrow> authReply option \<Rightarrow> authKey
     \<Rightarrow> action list \<times> authReply option \<times> store" where
  "onAuthRequest sha256 storeFails db socketId player authKey =
     (case authUser sha256 db socketId authKey of
        (Inr authReply, db') \<Rightarrow>
          ([SocketJoin (authReply.gameCode authReply),
            RoomEmit (authReply.gameCode authReply)
              (GameStatusEvent
                 (getGameStatus storeFails (gameDbOf db' (authReply.gameCode authReply))))],
           Some authReply, db')
      | (Inl e, db') \<Rightarrow> (handleSocketError e, player, db'))"

definition onChangeName ::
  "bool \<Rightarrow> store \<Rightarrow> authReply option \<Rightarrow> string
     \<Rightarrow> action list \<times> authReply option \<times> store" where
  "onChangeName storeFails db player newName =
     (case player of
        None \<Rightarrow> ([], player, db)
      | Some p \<Rightarrow>
          if authenticated p then
            (case changeName db (authReply.gameCode p) (authReply.name p) newName of
               (Inr n, db') \<Rightarrow>
                 ([SocketEmit (NameChanged newName),
                   RoomEmit (authReply.gameCode p)
                     (GameStatusEvent
                        (getGameStatus storeFails (gameDbOf db' (authReply.gameCode p))))],
                  Some (p\<lparr>authReply.name := n\<rparr>), db')
             | (Inl e, db') \<Rightarrow> (handleSocketError e, player, db'))
          else ([], player, db))"

section \<open>Sequences of operations\<close>

text \<open>
  The operations that write to the store. In \<open>run\<close> each operation runs to its end before
  the next starts; \<open>step\<close> gives the store an operation leaves behind, whether it returns
  or throws.
\<close>

datatype request =
    CreateGame int "int list"
  | JoinGame string string int
  | AuthUser string authKey
  | ChangeName int string string
  | RemovePlayer int playerToRemove
  | ExpirySweep faults int

fun step :: "(string \<Rightarrow> string) \<Rightarrow> int \<Rightarrow> request \<Rightarrow> store \<Rightarrow> store" where
  "step sha256 ttl (CreateGame now draws) db =
     (case createGame now draws db of None \<Rightarrow> db | Some r \<Rightarrow> snd r)"
| "step sha256 ttl (JoinGame secret playerName code) db =
     snd (joinGame sha256 secret db playerName code)"
| "step sha256 ttl (AuthUser socketId authKey) db = snd (authUser sha256 db socketId authKey)"
| "step sha256 ttl (ChangeName code currentName newName) db =
     snd (changeName db code currentName newName)"
| "step sha256 ttl (RemovePlayer code toRemove) db = snd (removePlayer db code toRemove)"
| "step sha256 ttl (ExpirySweep f currentDate) db = snd (expirySweep f currentDate ttl db)"

definition run :: "(string \<Rightarrow> string) \<Rightarrow> int \<Rightarrow> request list \<Rightarrow> store \<Rightarrow> store" where
  "run sha256 ttl reqs db = fold (step sha256 ttl) reqs db"

subsection \<open>Joins in flight\<close>

text \<open>
  The server handles requests on one event loop, and a request gives way to the others at
  each \<open>await\<close>. \<open>schedule\<close> lets joins overlap with every other request: a join in
  flight has passed its tests and holds its \<open>validationDocs\<close>, its insert still to come. A
  turn of the loop is a whole operation, the reads and tests of a join (\<open>JoinReads\<close>), or
  the insert of the join at a given place of the list of those in flight (\<open>JoinInsert\<close>).
  A run of whole operations is the schedule in which no join is ever in flight at the end
  of a turn. The other operations are taken whole in a schedule as well.
\<close>

type_synonym flight = "string \<times> string \<times> int \<times> validationDocs"

datatype turn =
    Whole request
  | JoinReads string string int
  | JoinInsert nat

fun fire ::
  "(string \<Rightarrow> string) \<Rightarrow> int \<Rightarrow> turn \<Rightarrow> store \<times> flight list \<Rightarrow> store \<times> flight list" where
  "fire sha256 ttl (Whole r) (db, flights) = (step sha256 ttl r db, flights)"
| "fire sha256 ttl (JoinReads secret playerName code) (db, flights) =
     (case joinGameCheck (joinGameReads db playerName code) code of
        Some e \<Rightarrow> (db, flights)
      | None \<Rightarrow>
          (db, flights @ [(secret, playerName, code, joinGameReads db playerName code)]))"
| "fire sha256 ttl (JoinInsert i) (db, flights) =
     (if i < length flights then
        (case flights ! i of
           (secret, playerName, code, validationDocs) \<Rightarrow>
             (joinGameInsert sha256 secret validationDocs playerName code db,
              take i flights @ drop (Suc i) flights))
      else (db, flights))"

definition schedule ::
  "(string \<Rightarrow> string) \<Rightarrow> int \<Rightarrow> turn list \<Rightarrow> store \<times> flight list \<Rightarrow> store \<times> flight list" where
  "schedule sha256 ttl turns server = fold (fire sha256 ttl) turns server"

section \<open>Example stores\<close>

text \<open>
  Concrete runs use \<open>digest\<close> in the place of SHA-256: an injective function, which is
  all that they need of it. \<open>aliceLobby\<close> is the store after session 5 was created and
  Alice joined it with the secret \<open>K1\<close>; in \<open>twoLobby\<close> Bob joined first and Alice
  second; in \<open>nineLobby\<close> nine players joined and in \<open>fullLobby\<close> ten. In \<open>playingLobby\<close> the game engine has
  started a round of Alice's session. \<open>agedPair\<close> and \<open>expiredPair\<close> hold two sessions
  each, created at the times given; \<open>brokenRead\<close> and \<open>brokenDrop\<close> are sweeps in which
  one operation on session 1 fails.
\<close>

definition digest :: "string \<Rightarrow> string" where
  "digest s = ''sha256:'' @ s"

definition lobbyStatus :: status where
  "lobbyStatus = \<lparr>playing = False, lastSignificantChange = 0\<rparr>"

definition alice :: player where
  "alice = \<lparr>player.name = ''Alice'', order = 1, hashedKey = digest ''K1'',
            socketClientId = None\<rparr>"

definition aliceLobby :: store where
  "aliceLobby = run digest 0 [CreateGame 0 [5], JoinGame ''K1'' ''Alice'' 5] emptyStore"

definition twoLobby :: store where
  "twoLobby = run digest 0
     [CreateGame 0 [5], JoinGame ''KB'' ''Bob'' 5, JoinGame ''KA'' ''Alice'' 5] emptyStore"

definition fullLobby :: store where
  "fullLobby = run digest 0
     (CreateGame 0 [5] #
      map (\<lambda>n. JoinGame (''K'' @ n) n 5)
        [''A'', ''B'', ''C'', ''D'', ''E'', ''F'', ''G'', ''H'', ''I'', ''J''])
     emptyStore"

definition nineLobby :: store where
  "nineLobby = run digest 0
     (CreateGame 0 [5] #
      map (\<lambda>n. JoinGame (''K'' @ n) n 5)
        [''A'', ''B'', ''C'', ''D'', ''E'', ''F'', ''G'', ''H'', ''I''])
     emptyStore"

definition agedPair :: store where
  "agedPair = run digest 0 [CreateGame 0 [1], CreateGame 1000000 [2]] emptyStore"

definition expiredPair :: store where
  "expiredPair = run digest 0 [CreateGame 0 [1], CreateGame 0 [2]] emptyStore"

definition brokenRead :: faults where
  "brokenRead = noFaults\<lparr>readFails := (\<lambda>c. c = 1)\<rparr>"

definition brokenDrop :: faults where
  "brokenDrop = noFaults\<lparr>dropFails := (\<lambda>c. c = 1)\<rparr>"

definition playingLobby :: store where
  "playingLobby = setStatus 5 [\<lparr>playing = True, lastSignificantChange = 0\<rparr>] aliceLobby"

section \<open>Facts about the store operations\<close>

subsection \<open>Filters and collections\<close>

declare leadingDigit.simps [simp del]

lemma parseInt_small: "\<bar>n\<bar> < 10 ^ 21 \<Longrightarrow> parseInt n = n"
  by (simp add: parseInt_def)

lemma parseInt_1e21: "parseInt (10 ^ 21) = 1"
  by (simp add: parseInt_def leadingDigit.simps)

lemma matches_nil [simp]: "matches [] d"
  by (simp add: matches_def)

lemma matches_code_playerDoc [simp]: "\<not> matches [(''code'', Some v)] (playerDoc p)"
  by (simp add: matches_def playerDoc_def split: option.split)

lemma matches_name_playerDoc [simp]:
  "matches [(''name'', Some (VStr n))] (playerDoc p) \<longleftrightarrow> player.name p = n"
  by (simp add: matches_def playerDoc_def)

lemma matches_code_gameDoc [simp]:
  "matches [(''code'', v)] (gameDoc c) \<longleftrightarrow> v = Some (VNum c)"
  by (auto simp add: matches_def gameDoc_def)

lemma findOne_status [simp]:
  "findOne statusDoc [] ss = (case ss of [] \<Rightarrow> None | s # _ \<Rightarrow> Some s)"
  by (cases ss) (simp_all add: findOne_def)

lemma findOne_name [simp]:
  "findOne playerDoc [(''name'', Some (VStr n))] ps = find (\<lambda>p. player.name p = n) ps"
  by (simp add: findOne_def)

lemma findOne_code [simp]:
  "findOne gameDoc [(''code'', Some (VNum c))] gs = (if c \<in> set gs then Some c else None)"
  by (induction gs) (auto simp add: findOne_def)

text \<open>
  No player document has a field \<open>code\<close>, so an update of the players collection that
  filters on \<open>code\<close> finds no document and changes nothing.
\<close>

lemma updateOne_code_players [simp]: "updateOne playerDoc [(''code'', Some v)] upd ps = ps"
  by (induction ps) simp_all

lemma setPlayers_same [simp]: "setPlayers c (players (gameDbOf db c)) db = db"
  by (simp add: setPlayers_def)

lemma authUser_store: "snd (authUser sha256 db socketId authKey) = db"
  by (simp add: authUser_def Let_def parseInt_def split: option.split)

text \<open>\<open>joinGame\<close> in one piece.\<close>

lemma joinGame_unfold:
  "joinGame sha256 secret db playerName code =
     (let gameDb = gameDbOf db code;
          doc0 = findOne gameDoc [(''code'', Some (VNum (parseInt code)))] (games db);
          doc1 = findOne statusDoc [] (status gameDb);
          doc2 = findOne playerDoc [(''name'', Some (VStr playerName))] (players gameDb);
          doc3 = players gameDb
      in
        if doc0 = None then (Inl (UserException (GameDoesNotExist code) ''''), db)
        else
          case doc1 of
            None \<Rightarrow> (Inl TypeError, db)
          | Some st \<Rightarrow>
              if playing st \<noteq> False then (Inl (UserException JoinInProgress ''''), db)
              else if doc2 \<noteq> None then (Inl (UserException NameInUse ''''), db)
              else if length doc3 \<ge> 10 then (Inl (UserException TenPlayers ''''), db)
              else
                (Inr \<lparr>authKey.gameCode = code, name = playerName, key = secret\<rparr>,
                 setPlayers code
                   (insertOne
                      \<lparr>player.name = playerName, order = length doc3 + 1,
                       hashedKey = sha256 secret, socketClientId = None\<rparr>
                      (players gameDb)) db))"
  by (auto simp add: joinGame_def joinGameReads_def joinGameCheck_def joinGameInsert_def Let_def
      split: list.split)

subsection \<open>The example stores, unfolded\<close>

lemma aliceLobby_eq:
  "aliceLobby = \<lparr>games = [5],
     gameDbOf = (\<lambda>c. emptyDb)(5 := \<lparr>status = [lobbyStatus], players = [alice]\<rparr>)\<rparr>"
  by (simp add: aliceLobby_def run_def createGame_def joinGame_unfold emptyStore_def emptyDb_def
      setStatus_def setPlayers_def insertOne_def parseInt_def alice_def lobbyStatus_def)

lemma twoLobby_eq:
  "twoLobby = \<lparr>games = [5],
     gameDbOf = (\<lambda>c. emptyDb)(5 := \<lparr>status = [lobbyStatus], players =
       [\<lparr>player.name = ''Bob'', order = 1, hashedKey = digest ''KB'', socketClientId = None\<rparr>,
        \<lparr>player.name = ''Alice'', order = 2, hashedKey = digest ''KA'',
           socketClientId = None\<rparr>]\<rparr>)\<rparr>"
  by (simp add: twoLobby_def run_def createGame_def joinGame_unfold emptyStore_def emptyDb_def
      setStatus_def setPlayers_def insertOne_def parseInt_def lobbyStatus_def numeral_2_eq_2)

lemma fullLobby_players:
  "map player.name (players (gameDbOf fullLobby 5))
     = [''A'', ''B'', ''C'', ''D'', ''E'', ''F'', ''G'', ''H'', ''I'', ''J'']
   \<and> games fullLobby = [5] \<and> status (gameDbOf fullLobby 5) = [lobbyStatus]"
  by (simp add: fullLobby_def run_def createGame_def joinGame_unfold emptyStore_def emptyDb_def
      setStatus_def setPlayers_def insertOne_def parseInt_def lobbyStatus_def)

lemma nineLobby_players:
  "map player.name (players (gameDbOf nineLobby 5))
     = [''A'', ''B'', ''C'', ''D'', ''E'', ''F'', ''G'', ''H'', ''I'']
   \<and> games nineLobby = [5] \<and> status (gameDbOf nineLobby 5) = [lobbyStatus]"
  by (simp add: nineLobby_def run_def createGame_def joinGame_unfold emptyStore_def emptyDb_def
      setStatus_def setPlayers_def insertOne_def parseInt_def lobbyStatus_def)

subsection \<open>Lookups by name\<close>

lemma find_name_None: "find (\<lambda>p. player.name p = n) ps = None \<longleftrightarrow> n \<notin> player.name ` set ps"
  by (induction ps) auto

lemma find_name_distinct:
  "distinct (map player.name ps) \<Longrightarrow>
     find (\<lambda>p. player.name p = n) ps = Some p \<longleftrightarrow> p \<in> set ps \<and> player.name p = n"
  by (induction ps) (auto simp add: image_iff)

lemma authUser_fst:
  "fst (authUser sha256 db socketId authKey) =
     (if parseInt (authKey.gameCode authKey) \<notin> set (games db)
      then Inl (UserException AuthGameDoesNotExist ''authError'')
      else case find (\<lambda>p. player.name p = authKey.name authKey)
                  (players (gameDbOf db (authKey.gameCode authKey))) of
             None \<Rightarrow> Inl (UserException NotJoined ''authError'')
           | Some p \<Rightarrow>
               if sha256 (key authKey) = hashedKey p
               then Inr \<lparr>authenticated = True, name = authKey.name authKey,
                         gameCode = authKey.gameCode authKey\<rparr>
               else Inl (UserException Unauthorized ''authError''))"
  by (simp add: authUser_def Let_def split: option.split)

subsection \<open>Joining\<close>

lemma length_updateOne [simp]: "length (updateOne asDoc q upd xs) = length xs"
  by (induction xs) simp_all

lemma length_deleteOne: "length (deleteOne asDoc q xs) \<le> length xs"
  by (induction xs) auto

lemma joinGame_throws_store: "fst (joinGame sha256 secret db playerName code) = Inl e \<Longrightarrow>
    snd (joinGame sha256 secret db playerName code) = db"
  by (auto simp add: joinGame_unfold Let_def split: list.splits if_splits)

lemma joinGame_returns:
  assumes "fst (joinGame sha256 secret db playerName code) = Inr reply"
  shows "snd (joinGame sha256 secret db playerName code) =
           setPlayers code
             (players (gameDbOf db code) @
                [\<lparr>player.name = playerName, order = length (players (gameDbOf db code)) + 1,
                  hashedKey = sha256 secret, socketClientId = None\<rparr>]) db"
    and "length (players (gameDbOf db code)) < 10"
    and "playerName \<notin> player.name ` set (players (gameDbOf db code))"
    and "parseInt code \<in> set (games db)"
    and "reply = \<lparr>authKey.gameCode = code, name = playerName, key = secret\<rparr>"
  using assms
  by (auto simp add: joinGame_unfold Let_def insertOne_def find_name_None
      split: list.splits if_splits)

lemma joinGame_full:
  "10 \<le> length (players (gameDbOf db code)) \<Longrightarrow>
     \<exists>e. fst (joinGame sha256 secret db playerName code) = Inl e"
  by (auto simp add: joinGame_unfold Let_def split: list.splits)

lemma joinGame_full_error:
  "10 \<le> length (players (gameDbOf db code)) \<Longrightarrow> parseInt code \<in> set (games db) \<Longrightarrow>
   status (gameDbOf db code) = s # ss \<Longrightarrow> \<not> playing s \<Longrightarrow>
   playerName \<notin> player.name ` set (players (gameDbOf db code)) \<Longrightarrow>
     fst (joinGame sha256 secret db playerName code) = Inl (UserException TenPlayers '''')"
  by (simp add: joinGame_unfold Let_def find_name_None)

subsection \<open>The roster bound along a run\<close>

lemma gameDbOf_setPlayers [simp]:
  "gameDbOf (setPlayers c ps db) c' =
     (if c' = c then (gameDbOf db c)\<lparr>players := ps\<rparr> else gameDbOf db c')"
  by (simp add: setPlayers_def)

lemma games_setPlayers [simp]: "games (setPlayers c ps db) = games db"
  by (simp add: setPlayers_def)

lemma gameDbOf_setStatus [simp]:
  "gameDbOf (setStatus c ss db) c' =
     (if c' = c then (gameDbOf db c)\<lparr>status := ss\<rparr> else gameDbOf db c')"
  by (simp add: setStatus_def)

lemma games_setStatus [simp]: "games (setStatus c ss db) = games db"
  by (simp add: setStatus_def)

lemma gameDbOf_dropDatabase [simp]:
  "gameDbOf (dropDatabase c db) c' = (if c' = c then emptyDb else gameDbOf db c')"
  by (simp add: dropDatabase_def)

lemma games_dropDatabase [simp]: "games (dropDatabase c db) = games db"
  by (simp add: dropDatabase_def)

lemma players_emptyDb [simp]: "players emptyDb = []"
  by (simp add: emptyDb_def)

lemma status_emptyDb [simp]: "status emptyDb = []"
  by (simp add: emptyDb_def)

lemma gameDbOf_dropCommands:
  "gameDbOf (dropCommands f c db) c' =
     (if c' = c \<and> \<not> dropFails f c then emptyDb else gameDbOf db c')"
  by (simp add: dropCommands_def Let_def)

lemma gameDbOf_fold_dropCommands:
  "gameDbOf (fold (dropCommands f) cs db) c =
     (if c \<in> set cs \<and> \<not> dropFails f c then emptyDb else gameDbOf db c)"
  by (induction cs arbitrary: db) (auto simp add: gameDbOf_dropCommands)

lemma createGame_players:
  "createGame now draws db = Some r \<Longrightarrow> players (gameDbOf (snd r) c) = players (gameDbOf db c)"
  by (auto simp add: createGame_def split: if_splits option.splits)

lemma joinGame_roster_bound:
  "length (players (gameDbOf db c)) \<le> 10 \<Longrightarrow>
     length (players (gameDbOf (snd (joinGame sha256 secret db playerName code)) c)) \<le> 10"
  by (auto simp add: joinGame_unfold Let_def insertOne_def split: list.splits)

lemma changeName_roster_length:
  "length (players (gameDbOf (snd (changeName db code currentName newName)) c))
     = length (players (gameDbOf db c))"
  by (auto simp add: changeName_def Let_def split: list.splits option.splits)

lemma removePlayer_roster_length:
  "length (players (gameDbOf (snd (removePlayer db code toRemove)) c))
     \<le> length (players (gameDbOf db c))"
  by (auto simp add: removePlayer_def Let_def length_deleteOne split: list.splits option.splits)

lemma expirySweep_roster_length:
  "length (players (gameDbOf (snd (expirySweep f currentDate ttl db)) c))
     \<le> length (players (gameDbOf db c))"
  by (simp add: expirySweep_def Let_def gameDbOf_fold_dropCommands)

lemma step_roster_bound:
  assumes "\<forall>c. length (players (gameDbOf db c)) \<le> 10"
  shows "length (players (gameDbOf (step sha256 ttl r db) c)) \<le> 10"
proof (cases r)
  case (CreateGame now draws)
  then show ?thesis using assms
    by (auto simp add: createGame_players split: option.splits)
next
  case (JoinGame secret playerName code)
  then show ?thesis using assms by (simp add: joinGame_roster_bound)
next
  case (AuthUser socketId authKey)
  then show ?thesis using assms by (simp add: authUser_store)
next
  case (ChangeName code currentName newName)
  then show ?thesis using assms by (simp add: changeName_roster_length)
next
  case (RemovePlayer code toRemove)
  then show ?thesis
    using assms removePlayer_roster_length [of db code toRemove c]
    by (simp add: le_trans)
next
  case (ExpirySweep f currentDate)
  then show ?thesis
    using assms expirySweep_roster_length [of f currentDate ttl db c]
    by (simp add: le_trans)
qed

lemma run_roster_bound:
  "\<forall>c. length (players (gameDbOf db c)) \<le> 10 \<Longrightarrow>
     length (players (gameDbOf (run sha256 ttl reqs db) c)) \<le> 10"
proof (induction reqs arbitrary: db)
  case Nil
  then show ?case by (simp add: run_def)
next
  case (Cons r reqs)
  have "\<forall>c. length (players (gameDbOf (step sha256 ttl r db) c)) \<le> 10"
    using Cons.prems step_roster_bound by blast
  from Cons.IH [OF this] show ?case by (simp add: run_def)
qed

subsection \<open>The sweep\<close>

lemma deleteOne_gameDoc [simp]: "deleteOne gameDoc [(''code'', Some (VNum c))] gs = remove1 c gs"
  by (induction gs) auto

lemma games_dropCommands:
  "games (dropCommands f c db) = (if deleteFails f c then games db else remove1 c (games db))"
  by (simp add: dropCommands_def Let_def)

lemma games_fold_dropCommands:
  "games (fold (dropCommands f) cs db)
     = fold (\<lambda>c gs. if deleteFails f c then gs else remove1 c gs) cs (games db)"
  by (induction cs arbitrary: db) (simp_all add: games_dropCommands)

lemma dying_filter:
  "map fst (filter (\<lambda>(c, st). P st) (map (\<lambda>c. (c, g c)) xs)) = filter (\<lambda>c. P (g c)) xs"
  by (induction xs) simp_all

lemma fold_remove1_filter:
  "\<forall>y \<in> set ys. \<not> P y \<Longrightarrow>
     fold remove1 (filter P xs) (ys @ xs) = ys @ filter (\<lambda>x. \<not> P x) xs"
proof (induction xs arbitrary: ys)
  case Nil
  then show ?case by simp
next
  case (Cons x xs)
  show ?case
  proof (cases "P x")
    case True
    then have "x \<notin> set ys" using Cons.prems by blast
    then have "remove1 x (ys @ x # xs) = ys @ xs"
      by (simp add: remove1_append)
    with True Cons.IH [OF Cons.prems] show ?thesis by simp
  next
    case False
    then have "\<forall>y \<in> set (ys @ [x]). \<not> P y" using Cons.prems by simp
    from Cons.IH [OF this] False show ?thesis by simp
  qed
qed

lemma count_list_remove1:
  "count_list (remove1 x gs) c = (if x = c then count_list gs c - 1 else count_list gs c)"
  by (induction gs) auto

lemma count_list_fold_delete:
  "count_list (fold (\<lambda>c gs. if deleteFails f c then gs else remove1 c gs) cs gs) c
     = (if deleteFails f c then count_list gs c else count_list gs c - count_list cs c)"
  by (induction cs arbitrary: gs) (auto simp add: count_list_remove1)

lemma count_list_filter: "count_list (filter P xs) c = (if P c then count_list xs c else 0)"
  by (induction xs) auto

lemma expirySweep_aborts:
  "listFails f \<or> (\<exists>c \<in> set (games db). readFails f c) \<Longrightarrow>
     expirySweep f currentDate ttl db = ([ConsoleError], db)"
  by (auto simp add: expirySweep_def list_ex_iff)

lemma expirySweep_runs:
  assumes "\<not> listFails f" "\<forall>c \<in> set (games db). \<not> readFails f c"
  shows "expirySweep f currentDate ttl db =
    (map DeletedGame
       (filter (\<lambda>c. shouldDie currentDate ttl (findOne statusDoc [] (status (gameDbOf db c))))
          (games db))
     @ (if list_ex (\<lambda>c. dropFails f c \<or> deleteFails f c)
            (filter (\<lambda>c. shouldDie currentDate ttl
                       (findOne statusDoc [] (status (gameDbOf db c)))) (games db))
        then [ConsoleError] else []),
     fold (dropCommands f)
       (filter (\<lambda>c. shouldDie currentDate ttl (findOne statusDoc [] (status (gameDbOf db c))))
          (games db)) db)"
proof -
  have guard: "(listFails f \<or> list_ex (readFails f) (games db)) = False"
    using assms by (simp add: list_ex_iff)
  have dying: "map fst (filter (\<lambda>(c, st). shouldDie currentDate ttl st)
                  (map (\<lambda>c. (c, findOne statusDoc [] (status (gameDbOf db c)))) (games db)))
        = filter (\<lambda>c. shouldDie currentDate ttl
                     (findOne statusDoc [] (status (gameDbOf db c)))) (games db)"
    by (rule dying_filter)
  show ?thesis
    unfolding expirySweep_def Let_def by (simp only: guard dying if_False)
qed

lemma noFaults_simps [simp]:
  "\<not> listFails noFaults" "\<not> readFails noFaults c" "\<not> dropFails noFaults c"
  "\<not> deleteFails noFaults c"
  by (simp_all add: noFaults_def)

lemma shouldDie_iff:
  "shouldDie currentDate ttl (findOne statusDoc [] ss) \<longleftrightarrow>
     ss = [] \<or> (\<exists>s rest. ss = s # rest \<and> lastSignificantChange s < currentDate - ttl)"
  by (cases ss) (auto simp add: shouldDie_def)

lemma agedPair_eq:
  "agedPair = \<lparr>games = [1, 2],
     gameDbOf = (\<lambda>c. emptyDb)
       (1 := \<lparr>status = [\<lparr>playing = False, lastSignificantChange = 0\<rparr>], players = []\<rparr>,
        2 := \<lparr>status = [\<lparr>playing = False, lastSignificantChange = 1000000\<rparr>], players = []\<rparr>)\<rparr>"
  by (simp add: agedPair_def run_def createGame_def emptyStore_def emptyDb_def
      setStatus_def insertOne_def)

lemma expiredPair_eq:
  "expiredPair = \<lparr>games = [1, 2],
     gameDbOf = (\<lambda>c. emptyDb)
       (1 := \<lparr>status = [\<lparr>playing = False, lastSignificantChange = 0\<rparr>], players = []\<rparr>,
        2 := \<lparr>status = [\<lparr>playing = False, lastSignificantChange = 0\<rparr>], players = []\<rparr>)\<rparr>"
  by (simp add: expiredPair_def run_def createGame_def emptyStore_def emptyDb_def
      setStatus_def insertOne_def)

subsection \<open>The status snapshot\<close>

lemma map_of_playerDoc_gameCode [simp]: "map_of (playerDoc p) ''gameCode'' = None"
  by (simp add: playerDoc_def split: option.split)

lemma getGameStatusTry_cases:
  "getGameStatusTry storeFails gameDb =
     (if storeFails then Inl (Error StoreFailure)
      else case status gameDb of
             [] \<Rightarrow> Inl TypeError
           | s # rest \<Rightarrow>
               if playing s then Inr Undefined
               else Inr (Lobby (map (\<lambda>p. LobbyPlayer (player.name p) (order p) None)
                                  (players gameDb))))"
  by (simp add: getGameStatusTry_def split: list.split)

subsection \<open>Renaming and removing\<close>

lemma find_append_None: "find P xs = None \<Longrightarrow> find P (xs @ ys) = find P ys"
  by (induction xs) (auto split: if_splits)

lemma updateOne_name_split:
  "find (\<lambda>p. player.name p = n) ps = Some p \<Longrightarrow>
     \<exists>before after. ps = before @ p # after \<and> n \<notin> player.name ` set before \<and>
       player.name p = n \<and>
       updateOne playerDoc [(''name'', Some (VStr n))] upd ps = before @ upd p # after"
proof (induction ps)
  case Nil
  then show ?case by simp
next
  case (Cons q ps)
  show ?case
  proof (cases "player.name q = n")
    case True
    with Cons.prems have "q = p" by simp
    with True show ?thesis by (intro exI [of _ "[]"] exI [of _ ps]) simp
  next
    case False
    with Cons.prems have "find (\<lambda>p. player.name p = n) ps = Some p" by simp
    from Cons.IH [OF this] obtain before after where
      "ps = before @ p # after" "n \<notin> player.name ` set before" "player.name p = n"
      "updateOne playerDoc [(''name'', Some (VStr n))] upd ps = before @ upd p # after"
      by blast
    with False show ?thesis
      by (intro exI [of _ "q # before"] exI [of _ after]) simp
  qed
qed

lemma changeName_returns:
  assumes "fst (changeName db code currentName newName) = Inr r"
  shows "r = newName"
    and "currentName \<noteq> newName" and "newName \<noteq> ''''"
    and "\<exists>p. find (\<lambda>p. player.name p = currentName) (players (gameDbOf db code)) = Some p"
    and "snd (changeName db code currentName newName) =
           setPlayers code
             (updateOne playerDoc [(''name'', Some (VStr currentName))]
                (\<lambda>p. p\<lparr>player.name := newName\<rparr>) (players (gameDbOf db code))) db"
  using assms
  by (auto simp add: changeName_def Let_def split: if_splits list.splits option.splits)

text \<open>
  What a successful \<open>changeName\<close> changes: the name of the first player document that
  bears \<open>currentName\<close>, and nothing else.
\<close>

lemma changeName_frame:
  assumes "fst (changeName db code currentName newName) = Inr r"
  shows "\<exists>before p after.
           players (gameDbOf db code) = before @ p # after \<and>
           player.name p = currentName \<and> currentName \<notin> player.name ` set before \<and>
           players (gameDbOf (snd (changeName db code currentName newName)) code)
             = before @ p\<lparr>player.name := newName\<rparr> # after"
    and "status (gameDbOf (snd (changeName db code currentName newName)) code)
           = status (gameDbOf db code)"
    and "c \<noteq> code \<Longrightarrow>
           gameDbOf (snd (changeName db code currentName newName)) c = gameDbOf db c"
    and "games (snd (changeName db code currentName newName)) = games db"
proof -
  from changeName_returns(4) [OF assms] obtain p where
    "find (\<lambda>p. player.name p = currentName) (players (gameDbOf db code)) = Some p" by blast
  from updateOne_name_split [OF this, of "\<lambda>p. p\<lparr>player.name := newName\<rparr>"]
  show "\<exists>before p after.
           players (gameDbOf db code) = before @ p # after \<and>
           player.name p = currentName \<and> currentName \<notin> player.name ` set before \<and>
           players (gameDbOf (snd (changeName db code currentName newName)) code)
             = before @ p\<lparr>player.name := newName\<rparr> # after"
    by (auto simp add: changeName_returns(5) [OF assms])
qed (simp_all add: changeName_returns(5) [OF assms])

text \<open>
  After a rename to a name that no document of the roster bears, the renamed player
  authenticates under the new name with the secret whose digest its document holds.
\<close>

lemma changeName_then_authUser:
  assumes renamed: "fst (changeName db code currentName newName) = Inr r"
    and registered: "parseInt code \<in> set (games db)"
    and fresh: "newName \<notin> player.name ` set (players (gameDbOf db code))"
    and mine: "find (\<lambda>p. player.name p = currentName) (players (gameDbOf db code)) = Some p"
    and secret: "sha256 k = hashedKey p"
  shows "fst (authUser sha256 (snd (changeName db code currentName newName)) socketId
               \<lparr>authKey.gameCode = code, name = newName, key = k\<rparr>)
           = Inr \<lparr>authenticated = True, name = newName, gameCode = code\<rparr>"
proof -
  from updateOne_name_split [OF mine, of "\<lambda>p. p\<lparr>player.name := newName\<rparr>"]
  obtain before after where split:
    "players (gameDbOf db code) = before @ p # after"
    "updateOne playerDoc [(''name'', Some (VStr currentName))]
       (\<lambda>p. p\<lparr>player.name := newName\<rparr>) (players (gameDbOf db code))
     = before @ p\<lparr>player.name := newName\<rparr> # after"
    by blast
  from fresh split(1) have "newName \<notin> player.name ` set before" by auto
  then have "find (\<lambda>q. player.name q = newName) before = None"
    by (simp add: find_name_None)
  then have "find (\<lambda>q. player.name q = newName) (before @ p\<lparr>player.name := newName\<rparr> # after)
      = Some (p\<lparr>player.name := newName\<rparr>)"
    by (simp add: find_append_None)
  then show ?thesis
    using registered secret
    by (simp add: authUser_fst changeName_returns(5) [OF renamed] split(2))
qed

lemma deleteOne_subset: "set (deleteOne asDoc q xs) \<subseteq> set xs"
  by (induction xs) auto

lemma deleteOne_distinct_map:
  "distinct (map g xs) \<Longrightarrow> distinct (map g (deleteOne asDoc q xs))"
proof (induction xs)
  case Nil
  then show ?case by simp
next
  case (Cons x xs)
  then show ?case using deleteOne_subset [of asDoc q xs] by auto
qed

text \<open>
  \<open>joinGame\<close> and \<open>removePlayer\<close> keep the names of a roster distinct; a join under a
  name of the roster throws the name-in-use error once the checks before it have passed.
\<close>

lemma joinGame_names_distinct:
  "distinct (map player.name (players (gameDbOf db c))) \<Longrightarrow>
     distinct (map player.name
       (players (gameDbOf (snd (joinGame sha256 secret db playerName code)) c)))"
  by (auto simp add: joinGame_unfold Let_def insertOne_def find_name_None split: list.splits)

lemma removePlayer_names_distinct:
  "distinct (map player.name (players (gameDbOf db c))) \<Longrightarrow>
     distinct (map player.name (players (gameDbOf (snd (removePlayer db code toRemove)) c)))"
  by (auto simp add: removePlayer_def Let_def deleteOne_distinct_map
      split: list.splits option.splits)

lemma joinGame_name_taken:
  "parseInt code \<in> set (games db) \<Longrightarrow> status (gameDbOf db code) = s # rest \<Longrightarrow> \<not> playing s \<Longrightarrow>
   playerName \<in> player.name ` set (players (gameDbOf db code)) \<Longrightarrow>
     joinGame sha256 secret db playerName code = (Inl (UserException NameInUse ''''), db)"
  using find_name_None [of playerName "players (gameDbOf db code)"]
  by (auto simp add: joinGame_unfold Let_def)

section \<open>Authentication\<close>

text \<open>
  C1. A call of \<open>authUser\<close> that throws (session not registered, no player of that name,
  or digest mismatch) leaves the store as it was: no player document is modified, and every
  player's stored \<open>socketClientId\<close> is what it was before the call. The update is issued
  before the digests are compared, but its filter is the registry query, which no player
  document matches, so no binding is ever written. The handler of \<open>authRequest\<close> then
  leaves the closure of the connection as it was and sends the exception to the socket.
\<close>

theorem authUser_failure_binds_nothing:
  "fst (authUser sha256 db socketId authKey) = Inl e \<Longrightarrow>
     snd (authUser sha256 db socketId authKey) = db \<and>
     (\<forall>c. map socketClientId (players (gameDbOf (snd (authUser sha256 db socketId authKey)) c))
          = map socketClientId (players (gameDbOf db c))) \<and>
     onAuthRequest sha256 storeFails db socketId player authKey
       = (handleSocketError e, player, db)"
proof -
  assume failed: "fst (authUser sha256 db socketId authKey) = Inl e"
  then have "authUser sha256 db socketId authKey = (Inl e, db)"
    using authUser_store [of sha256 db socketId authKey] by (metis prod.collapse)
  then show ?thesis by (simp add: onAuthRequest_def)
qed

text \<open>A wrong secret for Alice: the call throws and \<open>aliceLobby\<close> is unchanged.\<close>

theorem authUser_failure_binds_nothing_witness:
  "fst (authUser digest aliceLobby ''socket-9''
          \<lparr>authKey.gameCode = 5, name = ''Alice'', key = ''guess''\<rparr>)
     = Inl (UserException Unauthorized ''authError'')
   \<and> snd (authUser digest aliceLobby ''socket-9''
            \<lparr>authKey.gameCode = 5, name = ''Alice'', key = ''guess''\<rparr>) = aliceLobby
   \<and> onAuthRequest digest False aliceLobby ''socket-9'' None
        \<lparr>authKey.gameCode = 5, name = ''Alice'', key = ''guess''\<rparr>
       = ([SocketEmit (MyError (UserException Unauthorized ''authError''))], None, aliceLobby)"
proof -
  have failed: "fst (authUser digest aliceLobby ''socket-9''
                       \<lparr>authKey.gameCode = 5, name = ''Alice'', key = ''guess''\<rparr>)
                = Inl (UserException Unauthorized ''authError'')"
    by (simp add: aliceLobby_eq authUser_def parseInt_def alice_def digest_def)
  from authUser_failure_binds_nothing [OF failed, of False None] failed show ?thesis
    by (simp add: handleSocketError_def)
qed

text \<open>
  When \<open>authUser\<close> returns: the code that \<open>parseInt\<close> reads is registered, the players
  collection has a document with the given name, and the digest of the supplied secret is
  the \<open>hashedKey\<close> of the first such document. While the names of the roster are distinct
  that is the only document of the name. The reply is then \<open>{authenticated: true, name,
  gameCode}\<close>, and every exception that \<open>authUser\<close> throws has the type \<open>authError\<close>.
\<close>

lemma authUser_returns_iff:
  "((\<exists>reply. fst (authUser sha256 db socketId authKey) = Inr reply) \<longleftrightarrow>
      parseInt (authKey.gameCode authKey) \<in> set (games db) \<and>
      (\<exists>p. find (\<lambda>p. player.name p = authKey.name authKey)
              (players (gameDbOf db (authKey.gameCode authKey))) = Some p \<and>
           sha256 (key authKey) = hashedKey p))
   \<and> (distinct (map player.name (players (gameDbOf db (authKey.gameCode authKey)))) \<longrightarrow>
        ((\<exists>reply. fst (authUser sha256 db socketId authKey) = Inr reply) \<longleftrightarrow>
           parseInt (authKey.gameCode authKey) \<in> set (games db) \<and>
           (\<exists>p \<in> set (players (gameDbOf db (authKey.gameCode authKey))).
              player.name p = authKey.name authKey \<and> sha256 (key authKey) = hashedKey p)))
   \<and> (\<forall>reply. fst (authUser sha256 db socketId authKey) = Inr reply \<longrightarrow>
        reply = \<lparr>authenticated = True, name = authKey.name authKey,
                 gameCode = authKey.gameCode authKey\<rparr>)
   \<and> (\<forall>e. fst (authUser sha256 db socketId authKey) = Inl e \<longrightarrow>
        (\<exists>m. e = UserException m ''authError''))"
proof -
  let ?ps = "players (gameDbOf db (authKey.gameCode authKey))"
  let ?ok = "\<exists>reply. fst (authUser sha256 db socketId authKey) = Inr reply"
  have first: "?ok \<longleftrightarrow>
      parseInt (authKey.gameCode authKey) \<in> set (games db) \<and>
      (\<exists>p. find (\<lambda>p. player.name p = authKey.name authKey) ?ps = Some p \<and>
           sha256 (key authKey) = hashedKey p)"
    by (auto simp add: authUser_fst split: option.split)
  have "?ok \<longleftrightarrow>
           parseInt (authKey.gameCode authKey) \<in> set (games db) \<and>
           (\<exists>p \<in> set ?ps. player.name p = authKey.name authKey \<and>
              sha256 (key authKey) = hashedKey p)"
    if "distinct (map player.name ?ps)"
    using first find_name_distinct [OF that] by blast
  moreover have "\<forall>reply. fst (authUser sha256 db socketId authKey) = Inr reply \<longrightarrow>
        reply = \<lparr>authenticated = True, name = authKey.name authKey,
                 gameCode = authKey.gameCode authKey\<rparr>"
    by (auto simp add: authUser_fst split: option.split if_splits)
  moreover have "\<forall>e. fst (authUser sha256 db socketId authKey) = Inl e \<longrightarrow>
        (\<exists>m. e = UserException m ''authError'')"
    by (auto simp add: authUser_fst split: option.split if_splits)
  ultimately show ?thesis using first by blast
qed

text \<open>
  C2. The claim is that \<open>authUser\<close> succeeds if and only if the session exists, a player
  of the given name exists in it and the digest of the supplied secret is that player's
  \<open>hashedKey\<close>. The code compares the digest with the first document of the name only, and
  \<open>changeName\<close> lets two documents bear one name: after Alice of \<open>twoLobby\<close> has renamed
  herself to Bob, session 5 is registered and holds a player named Bob whose \<open>hashedKey\<close>
  is the digest of \<open>KA\<close>, and \<open>authUser\<close> with the name Bob and the secret \<open>KA\<close> throws.
\<close>

theorem authUser_refuses_matching_player:
  "5 \<in> set (games (snd (changeName twoLobby 5 ''Alice'' ''Bob'')))
   \<and> \<lparr>player.name = ''Bob'', order = 2, hashedKey = digest ''KA'', socketClientId = None\<rparr>
       \<in> set (players (gameDbOf (snd (changeName twoLobby 5 ''Alice'' ''Bob'')) 5))
   \<and> authUser digest (snd (changeName twoLobby 5 ''Alice'' ''Bob'')) ''socket-2''
         \<lparr>authKey.gameCode = 5, name = ''Bob'', key = ''KA''\<rparr>
       = (Inl (UserException Unauthorized ''authError''),
          snd (changeName twoLobby 5 ''Alice'' ''Bob''))"
  by (simp add: twoLobby_eq changeName_def authUser_def setPlayers_def lobbyStatus_def
      parseInt_def digest_def)

text \<open>
  C3. The claim is that a successful \<open>authUser\<close> leaves \<open>socketClientId\<close> of the named
  player set to the connection's identifier. The code does not do that: in \<open>aliceLobby\<close>
  Alice authenticates with her own secret, the call returns, the store is what it was and
  her document still has no \<open>socketClientId\<close>.
\<close>

theorem authUser_binding_missing:
  "authUser digest aliceLobby ''socket-1'' \<lparr>authKey.gameCode = 5, name = ''Alice'', key = ''K1''\<rparr>
     = (Inr \<lparr>authenticated = True, name = ''Alice'', gameCode = 5\<rparr>, aliceLobby)
   \<and> map socketClientId (players (gameDbOf aliceLobby 5)) = [None]"
  by (simp add: aliceLobby_eq authUser_def parseInt_def alice_def setPlayers_def)

section \<open>Names\<close>

text \<open>
  C4. The claim is that no two players of a session ever bear the same name. \<open>joinGame\<close>
  and \<open>removePlayer\<close> keep the names of a roster distinct, but \<open>changeName\<close> does not
  look for the new name in the roster: in \<open>twoLobby\<close> Alice renames herself to Bob, the
  call returns, two documents of session 5 bear the name Bob, and the handler of
  \<open>changeName\<close> sends that roster to the room.
\<close>

theorem changeName_duplicates_name:
  "fst (changeName twoLobby 5 ''Alice'' ''Bob'') = Inr ''Bob''
   \<and> map player.name (players (gameDbOf (snd (changeName twoLobby 5 ''Alice'' ''Bob'')) 5))
       = [''Bob'', ''Bob'']
   \<and> fst (onChangeName False twoLobby
            (Some \<lparr>authenticated = True, name = ''Alice'', gameCode = 5\<rparr>) ''Bob'')
       = [SocketEmit (NameChanged ''Bob''),
          RoomEmit 5 (GameStatusEvent
            (Lobby [LobbyPlayer ''Bob'' 1 None, LobbyPlayer ''Bob'' 2 None]))]"
  by (simp add: twoLobby_eq changeName_def onChangeName_def setPlayers_def lobbyStatus_def
      getGameStatus_def getGameStatusTry_def)

text \<open>
  C10. The claim is that after every successful \<open>changeName\<close> only the name of the matched
  document has changed and the renamed player still authenticates under the new name with
  the secret issued at join. The frame holds (\<open>changeName_frame\<close>), and so does the
  authentication when the new name was free (\<open>changeName_then_authUser\<close>). But
  \<open>changeName\<close> accepts a name that is in use, and \<open>authUser\<close> then finds the earlier
  document of that name: in \<open>twoLobby\<close> Alice authenticates with her secret before the
  rename, and after renaming herself to Bob she is refused with the same secret.
\<close>

theorem renamed_player_locked_out:
  "fst (changeName twoLobby 5 ''Alice'' ''Bob'') = Inr ''Bob''
   \<and> fst (authUser digest twoLobby ''socket-2''
            \<lparr>authKey.gameCode = 5, name = ''Alice'', key = ''KA''\<rparr>)
       = Inr \<lparr>authenticated = True, name = ''Alice'', gameCode = 5\<rparr>
   \<and> fst (authUser digest (snd (changeName twoLobby 5 ''Alice'' ''Bob'')) ''socket-2''
            \<lparr>authKey.gameCode = 5, name = ''Bob'', key = ''KA''\<rparr>)
       = Inl (UserException Unauthorized ''authError'')"
  by (simp add: twoLobby_eq changeName_def authUser_def setPlayers_def lobbyStatus_def
      parseInt_def digest_def)

section \<open>Capacity\<close>

text \<open>
  \<open>run\<close> is the schedule of whole operations, and \<open>joinGame\<close> is the two turns of a join
  with nothing between them.
\<close>

lemma run_as_schedule:
  "schedule sha256 ttl (map Whole reqs) (db, flights) = (run sha256 ttl reqs db, flights)"
  by (induction reqs arbitrary: db) (simp_all add: schedule_def run_def)

lemma joinGame_as_turns:
  "schedule sha256 ttl [JoinReads secret playerName code, JoinInsert (length flights)]
     (db, flights)
   = (snd (joinGame sha256 secret db playerName code), flights)"
  by (simp add: schedule_def joinGame_def Let_def split: option.split)

text \<open>
  Two joins that overlap: both read the roster of nine of \<open>nineLobby\<close>, both pass the
  tests, both insert. Session 5 then holds eleven players, the last two with the order 10.
\<close>

lemma interleaved_joins_eleven:
  "length (players (gameDbOf (fst (schedule digest 0
       [JoinReads ''KJ'' ''J'' 5, JoinReads ''KK'' ''K'' 5, JoinInsert 0, JoinInsert 0]
       (nineLobby, []))) 5)) = 11
   \<and> map order (drop 9 (players (gameDbOf (fst (schedule digest 0
       [JoinReads ''KJ'' ''J'' 5, JoinReads ''KK'' ''K'' 5, JoinInsert 0, JoinInsert 0]
       (nineLobby, []))) 5))) = [10, 10]"
proof -
  have names: "map player.name (players (gameDbOf nineLobby 5))
      = [''A'', ''B'', ''C'', ''D'', ''E'', ''F'', ''G'', ''H'', ''I'']"
    and reg: "games nineLobby = [5]"
    and st: "status (gameDbOf nineLobby 5) = [lobbyStatus]"
    using nineLobby_players by blast+
  have len: "length (players (gameDbOf nineLobby 5)) = 9"
    using arg_cong [OF names, of length] by simp
  have freeJ: "find (\<lambda>p. player.name p = ''J'') (players (gameDbOf nineLobby 5)) = None"
    and freeK: "find (\<lambda>p. player.name p = ''K'') (players (gameDbOf nineLobby 5)) = None"
    using arg_cong [OF names, of set] by (simp_all add: find_name_None)
  have readsJ: "joinGameReads nineLobby ''J'' 5
      = (Some 5, Some lobbyStatus, None, players (gameDbOf nineLobby 5))"
    and readsK: "joinGameReads nineLobby ''K'' 5
      = (Some 5, Some lobbyStatus, None, players (gameDbOf nineLobby 5))"
    using freeJ freeK reg st by (simp_all add: joinGameReads_def parseInt_def)
  have pass: "joinGameCheck (Some 5, Some lobbyStatus, None, players (gameDbOf nineLobby 5)) 5
      = None"
    using len by (simp add: joinGameCheck_def lobbyStatus_def)
  show ?thesis
    using len
    by (simp add: schedule_def readsJ readsK pass joinGameInsert_def insertOne_def)
qed

text \<open>
  C5, as amended. When the session holds 10 or more players, \<open>joinGame\<close> throws and
  leaves the store as it was, and the exception is that of the first test that fails: the
  game does not exist when the code is not registered; then, for a session that has its
  status document, the in-progress error when \<open>playing\<close> is true; then the name-in-use
  error when the name is in the roster; the capacity error otherwise. (A registered code
  without a status document gives a \<open>TypeError\<close>.) A join that returns, no other request
  having run since its reads, appends exactly one player, whose \<open>order\<close> is the former size
  of the roster plus one, and changes nothing else. While operations run one after
  another, a bound of 10 players on every session is kept, so it holds in every store that
  such a run reaches from the empty one.
\<close>

theorem joinGame_capacity:
  "(10 \<le> length (players (gameDbOf db code)) \<longrightarrow>
      joinGame sha256 secret db playerName code =
        (Inl (if parseInt code \<notin> set (games db)
              then UserException (GameDoesNotExist code) ''''
              else case status (gameDbOf db code) of
                     [] \<Rightarrow> TypeError
                   | st # rest \<Rightarrow>
                       if playing st then UserException JoinInProgress ''''
                       else if playerName \<in> player.name ` set (players (gameDbOf db code))
                       then UserException NameInUse ''''
                       else UserException TenPlayers ''''), db))
   \<and> (\<forall>reply. fst (joinGame sha256 secret db playerName code) = Inr reply \<longrightarrow>
        reply = \<lparr>authKey.gameCode = code, name = playerName, key = secret\<rparr> \<and>
        snd (joinGame sha256 secret db playerName code) =
          setPlayers code
            (players (gameDbOf db code) @
               [\<lparr>player.name = playerName, order = length (players (gameDbOf db code)) + 1,
                 hashedKey = sha256 secret, socketClientId = None\<rparr>]) db)
   \<and> ((\<forall>c. length (players (gameDbOf db c)) \<le> 10) \<longrightarrow>
        (\<forall>c. length (players (gameDbOf (run sha256 ttl reqs db) c)) \<le> 10))
   \<and> (\<forall>c. length (players (gameDbOf (run sha256 ttl reqs emptyStore) c)) \<le> 10)"
proof -
  have full: "joinGame sha256 secret db playerName code =
        (Inl (if parseInt code \<notin> set (games db)
              then UserException (GameDoesNotExist code) ''''
              else case status (gameDbOf db code) of
                     [] \<Rightarrow> TypeError
                   | st # rest \<Rightarrow>
                       if playing st then UserException JoinInProgress ''''
                       else if playerName \<in> player.name ` set (players (gameDbOf db code))
                       then UserException NameInUse ''''
                       else UserException TenPlayers ''''), db)"
    if "10 \<le> length (players (gameDbOf db code))"
    using that find_name_None [of playerName "players (gameDbOf db code)"]
    by (auto simp add: joinGame_unfold Let_def split: list.split)
  have inserts: "reply = \<lparr>authKey.gameCode = code, name = playerName, key = secret\<rparr> \<and>
        snd (joinGame sha256 secret db playerName code) =
          setPlayers code
            (players (gameDbOf db code) @
               [\<lparr>player.name = playerName, order = length (players (gameDbOf db code)) + 1,
                 hashedKey = sha256 secret, socketClientId = None\<rparr>]) db"
    if "fst (joinGame sha256 secret db playerName code) = Inr reply" for reply
    using joinGame_returns(1,5) [OF that] by simp
  have "\<forall>c. length (players (gameDbOf (emptyStore) c)) \<le> 10"
    by (simp add: emptyStore_def)
  then have reach: "\<forall>c. length (players (gameDbOf (run sha256 ttl reqs emptyStore) c)) \<le> 10"
    using run_roster_bound by blast
  have inv: "\<forall>c. length (players (gameDbOf (run sha256 ttl reqs db) c)) \<le> 10"
    if "\<forall>c. length (players (gameDbOf db c)) \<le> 10"
    using that run_roster_bound by blast
  from full inserts inv reach show ?thesis by blast
qed

text \<open>An eleventh join under a new name, to the full session of \<open>fullLobby\<close>.\<close>

theorem joinGame_capacity_witness:
  "joinGame digest ''KZ'' fullLobby ''Zoe'' 5 = (Inl (UserException TenPlayers ''''), fullLobby)
   \<and> length (players (gameDbOf fullLobby 5)) = 10"
proof -
  have names: "map player.name (players (gameDbOf fullLobby 5))
     = [''A'', ''B'', ''C'', ''D'', ''E'', ''F'', ''G'', ''H'', ''I'', ''J'']"
    using fullLobby_players by blast
  have len: "length (players (gameDbOf fullLobby 5)) = 10"
    using arg_cong [OF names, of length] by simp
  have fresh: "''Zoe'' \<notin> player.name ` set (players (gameDbOf fullLobby 5))"
    using arg_cong [OF names, of set] by simp
  have reg: "parseInt 5 \<in> set (games fullLobby)"
    and st: "status (gameDbOf fullLobby 5) = [lobbyStatus]"
    using fullLobby_players by (simp_all add: parseInt_def)
  have full: "10 \<le> length (players (gameDbOf fullLobby 5))"
    using len by simp
  from joinGame_capacity [of fullLobby 5 digest "''KZ''" "''Zoe''" 0 "[]"] full
  have "joinGame digest ''KZ'' fullLobby ''Zoe'' 5 =
        (Inl (if parseInt 5 \<notin> set (games fullLobby)
              then UserException (GameDoesNotExist 5) ''''
              else case status (gameDbOf fullLobby 5) of
                     [] \<Rightarrow> TypeError
                   | st # rest \<Rightarrow>
                       if playing st then UserException JoinInProgress ''''
                       else if ''Zoe'' \<in> player.name ` set (players (gameDbOf fullLobby 5))
                       then UserException NameInUse ''''
                       else UserException TenPlayers ''''), fullLobby)"
    by blast
  with len fresh reg st show ?thesis by (simp add: lobbyStatus_def)
qed

text \<open>
  C5 as stated fails where an earlier check throws first: \<open>fullLobby\<close> holds ten players,
  and a join under the name of one of them throws the name-in-use error, not the capacity
  error.
\<close>

theorem joinGame_full_other_error:
  "10 \<le> length (players (gameDbOf fullLobby 5))
   \<and> fst (joinGame digest ''KA'' fullLobby ''A'' 5) = Inl (UserException NameInUse '''')
   \<and> fst (joinGame digest ''KA'' fullLobby ''A'' 5) \<noteq> Inl (UserException TenPlayers '''')"
proof -
  have names: "map player.name (players (gameDbOf fullLobby 5))
     = [''A'', ''B'', ''C'', ''D'', ''E'', ''F'', ''G'', ''H'', ''I'', ''J'']"
    using fullLobby_players by blast
  have len: "length (players (gameDbOf fullLobby 5)) = 10"
    using arg_cong [OF names, of length] by simp
  have used: "find (\<lambda>p. player.name p = ''A'') (players (gameDbOf fullLobby 5)) \<noteq> None"
    using arg_cong [OF names, of set] by (simp add: find_name_None)
  have "fst (joinGame digest ''KA'' fullLobby ''A'' 5) = Inl (UserException NameInUse '''')"
    using used fullLobby_players by (simp add: joinGame_unfold Let_def parseInt_def lobbyStatus_def)
  with len show ?thesis by simp
qed

section \<open>Removal of the last player\<close>

text \<open>
  C6. The claim is that removing the last player destroys the session, registry entry
  included, so that a later \<open>authUser\<close> with its code throws the session-does-not-exist
  error. The code deletes the registry entry whose \<open>code\<close> equals the \<open>gameCode\<close> field
  of the client's payload, not the code of the connection's session. With the payload
  \<open>{name: 'Alice'}\<close> the database of session 5 is dropped, the registry still lists 5, and
  \<open>authUser\<close> throws the not-joined error. The registry also keeps the entry when the
  payload carries the code as the string \<open>'5'\<close>, or another code.
\<close>

theorem removePlayer_keeps_registry_entry:
  "fst (removePlayer aliceLobby 5 \<lparr>playerToRemove.name = ''Alice'', gameCode = None\<rparr>)
     = Inr (\<lparr>playerToRemove.name = ''Alice'', gameCode = None\<rparr>, None)
   \<and> gameDbOf (snd (removePlayer aliceLobby 5
                      \<lparr>playerToRemove.name = ''Alice'', gameCode = None\<rparr>)) 5 = emptyDb
   \<and> games (snd (removePlayer aliceLobby 5
                   \<lparr>playerToRemove.name = ''Alice'', gameCode = None\<rparr>)) = [5]
   \<and> fst (authUser digest
            (snd (removePlayer aliceLobby 5
                    \<lparr>playerToRemove.name = ''Alice'', gameCode = None\<rparr>))
            ''socket-1'' \<lparr>authKey.gameCode = 5, name = ''Alice'', key = ''K1''\<rparr>)
       = Inl (UserException NotJoined ''authError'')
   \<and> games (snd (removePlayer aliceLobby 5
                   \<lparr>playerToRemove.name = ''Alice'', gameCode = Some (VStr ''5'')\<rparr>)) = [5]
   \<and> games (snd (removePlayer aliceLobby 5
                   \<lparr>playerToRemove.name = ''Alice'', gameCode = Some (VNum 6)\<rparr>)) = [5]"
  by (simp add: aliceLobby_eq removePlayer_def authUser_def setPlayers_def dropDatabase_def
      lobbyStatus_def alice_def parseInt_def emptyDb_def Let_def)

text \<open>The same removal with the payload \<open>{name: 'Alice', gameCode: 5}\<close> does destroy the session.\<close>

lemma removePlayer_with_code_destroys:
  "games (snd (removePlayer aliceLobby 5
                   \<lparr>playerToRemove.name = ''Alice'', gameCode = Some (VNum 5)\<rparr>)) = []
   \<and> fst (authUser digest
            (snd (removePlayer aliceLobby 5
                    \<lparr>playerToRemove.name = ''Alice'', gameCode = Some (VNum 5)\<rparr>))
            ''socket-1'' \<lparr>authKey.gameCode = 5, name = ''Alice'', key = ''K1''\<rparr>)
       = Inl (UserException AuthGameDoesNotExist ''authError'')"
  by (simp add: aliceLobby_eq removePlayer_def authUser_def setPlayers_def dropDatabase_def
      lobbyStatus_def alice_def parseInt_def emptyDb_def Let_def)

section \<open>Expiry\<close>

text \<open>
  C7. When no store operation fails, a sweep removes from the registry exactly the sessions
  whose status is missing or older than \<open>currentDate - ttl\<close>, and drops their databases:
  each such session is gone afterwards, and each registered session whose
  \<open>lastSignificantChange\<close> is at least \<open>currentDate - ttl\<close> is still registered with its
  database unchanged. Databases of unregistered codes are not touched.
\<close>

theorem expirySweep_destroys_exactly:
  "games (snd (expirySweep noFaults currentDate ttl db))
     = filter (\<lambda>c. \<not> shouldDie currentDate ttl
                       (findOne statusDoc [] (status (gameDbOf db c)))) (games db)
   \<and> (\<forall>c. gameDbOf (snd (expirySweep noFaults currentDate ttl db)) c
          = (if c \<in> set (games db) \<and>
                shouldDie currentDate ttl (findOne statusDoc [] (status (gameDbOf db c)))
             then emptyDb else gameDbOf db c))
   \<and> (\<forall>c \<in> set (games db).
        status (gameDbOf db c) = [] \<or>
        (\<exists>s rest. status (gameDbOf db c) = s # rest \<and>
           lastSignificantChange s < currentDate - ttl) \<longrightarrow>
        c \<notin> set (games (snd (expirySweep noFaults currentDate ttl db))) \<and>
        gameDbOf (snd (expirySweep noFaults currentDate ttl db)) c = emptyDb)
   \<and> (\<forall>c \<in> set (games db).
        (\<exists>s rest. status (gameDbOf db c) = s # rest \<and>
           currentDate - ttl \<le> lastSignificantChange s) \<longrightarrow>
        c \<in> set (games (snd (expirySweep noFaults currentDate ttl db))) \<and>
        gameDbOf (snd (expirySweep noFaults currentDate ttl db)) c = gameDbOf db c)"
proof -
  let ?die = "\<lambda>c. shouldDie currentDate ttl (findOne statusDoc [] (status (gameDbOf db c)))"
  let ?db' = "snd (expirySweep noFaults currentDate ttl db)"
  have sweep: "?db' = fold (dropCommands noFaults) (filter ?die (games db)) db"
    by (simp add: expirySweep_runs del: findOne_status)
  have "games ?db' = fold remove1 (filter ?die (games db)) ([] @ games db)"
    by (simp add: sweep games_fold_dropCommands del: findOne_status)
  also have "\<dots> = [] @ filter (\<lambda>c. \<not> ?die c) (games db)"
    by (rule fold_remove1_filter) simp
  finally have registry: "games ?db' = filter (\<lambda>c. \<not> ?die c) (games db)"
    by simp
  have dbs: "gameDbOf ?db' c = (if c \<in> set (games db) \<and> ?die c then emptyDb else gameDbOf db c)"
    for c
    by (simp add: sweep gameDbOf_fold_dropCommands del: findOne_status)
  have gone: "c \<notin> set (games ?db') \<and> gameDbOf ?db' c = emptyDb"
    if "c \<in> set (games db)"
      "status (gameDbOf db c) = [] \<or>
        (\<exists>s rest. status (gameDbOf db c) = s # rest \<and>
           lastSignificantChange s < currentDate - ttl)" for c
  proof -
    have "?die c" using that(2) by (simp only: shouldDie_iff)
    with that(1) show ?thesis by (simp add: registry dbs del: findOne_status)
  qed
  have kept: "c \<in> set (games ?db') \<and> gameDbOf ?db' c = gameDbOf db c"
    if "c \<in> set (games db)"
      "\<exists>s rest. status (gameDbOf db c) = s # rest \<and>
           currentDate - ttl \<le> lastSignificantChange s" for c
  proof -
    have "\<not> ?die c" using that(2) by (auto simp add: shouldDie_iff simp del: findOne_status)
    with that(1) show ?thesis by (simp add: registry dbs del: findOne_status)
  qed
  from registry dbs gone kept show ?thesis by blast
qed

text \<open>
  Two sessions swept at time 2000000 with the development TTL: session 1, created at 0, is
  destroyed; session 2, created at 1000000, survives.
\<close>

theorem expirySweep_destroys_exactly_witness:
  "1 \<notin> set (games (snd (expirySweep noFaults 2000000 (msToLive False) agedPair)))
   \<and> gameDbOf (snd (expirySweep noFaults 2000000 (msToLive False) agedPair)) 1 = emptyDb
   \<and> 2 \<in> set (games (snd (expirySweep noFaults 2000000 (msToLive False) agedPair)))
   \<and> gameDbOf (snd (expirySweep noFaults 2000000 (msToLive False) agedPair)) 2
       = gameDbOf agedPair 2"
proof -
  have old: "1 \<in> set (games agedPair) \<and>
      (status (gameDbOf agedPair 1) = [] \<or>
       (\<exists>s rest. status (gameDbOf agedPair 1) = s # rest \<and>
          lastSignificantChange s < 2000000 - msToLive False))"
    by (simp add: agedPair_eq msToLive_def)
  have young: "2 \<in> set (games agedPair) \<and>
      (\<exists>s rest. status (gameDbOf agedPair 2) = s # rest \<and>
          2000000 - msToLive False \<le> lastSignificantChange s)"
    by (simp add: agedPair_eq msToLive_def)
  from expirySweep_destroys_exactly [of 2000000 "msToLive False" agedPair] old young
  show ?thesis by blast
qed

text \<open>
  C8, as amended. A failure while listing the sessions or reading the status of any one of
  them aborts the whole sweep: the store is unchanged and the failure is logged. When all
  reads succeed, a failure of one destroy command does not stop the others: every expired
  session whose own commands succeed is dropped and unregistered, and the failure is
  logged.
\<close>

theorem expirySweep_failure_isolation:
  "((listFails f \<or> (\<exists>c \<in> set (games db). readFails f c)) \<longrightarrow>
      expirySweep f currentDate ttl db = ([ConsoleError], db))
   \<and> (\<not> listFails f \<and> (\<forall>c \<in> set (games db). \<not> readFails f c) \<longrightarrow>
        (\<forall>c \<in> set (games db).
           shouldDie currentDate ttl (findOne statusDoc [] (status (gameDbOf db c))) \<longrightarrow>
             (\<not> dropFails f c \<longrightarrow>
                gameDbOf (snd (expirySweep f currentDate ttl db)) c = emptyDb) \<and>
             (\<not> deleteFails f c \<longrightarrow>
                c \<notin> set (games (snd (expirySweep f currentDate ttl db))))) \<and>
        ((\<exists>c \<in> set (games db).
            shouldDie currentDate ttl (findOne statusDoc [] (status (gameDbOf db c))) \<and>
            (dropFails f c \<or> deleteFails f c)) \<longrightarrow>
           ConsoleError \<in> set (fst (expirySweep f currentDate ttl db))))"
proof -
  let ?die = "\<lambda>c. shouldDie currentDate ttl (findOne statusDoc [] (status (gameDbOf db c)))"
  let ?dying = "filter ?die (games db)"
  have aborts: "expirySweep f currentDate ttl db = ([ConsoleError], db)"
    if "listFails f \<or> (\<exists>c \<in> set (games db). readFails f c)"
    using that by (rule expirySweep_aborts)
  have runs: "(\<forall>c \<in> set (games db). ?die c \<longrightarrow>
             (\<not> dropFails f c \<longrightarrow>
                gameDbOf (snd (expirySweep f currentDate ttl db)) c = emptyDb) \<and>
             (\<not> deleteFails f c \<longrightarrow>
                c \<notin> set (games (snd (expirySweep f currentDate ttl db))))) \<and>
        ((\<exists>c \<in> set (games db). ?die c \<and> (dropFails f c \<or> deleteFails f c)) \<longrightarrow>
           ConsoleError \<in> set (fst (expirySweep f currentDate ttl db)))"
    if ok: "\<not> listFails f \<and> (\<forall>c \<in> set (games db). \<not> readFails f c)"
  proof -
    have sweep: "snd (expirySweep f currentDate ttl db) = fold (dropCommands f) ?dying db"
      and log: "fst (expirySweep f currentDate ttl db) =
          map DeletedGame ?dying
          @ (if list_ex (\<lambda>c. dropFails f c \<or> deleteFails f c) ?dying
             then [ConsoleError] else [])"
      using ok by (simp_all add: expirySweep_runs del: findOne_status)
    have dropped: "gameDbOf (snd (expirySweep f currentDate ttl db)) c = emptyDb"
      if "c \<in> set (games db)" "?die c" "\<not> dropFails f c" for c
      using that by (simp add: sweep gameDbOf_fold_dropCommands del: findOne_status)
    have deleted: "c \<notin> set (games (snd (expirySweep f currentDate ttl db)))"
      if "c \<in> set (games db)" "?die c" "\<not> deleteFails f c" for c
    proof -
      have "count_list (games (snd (expirySweep f currentDate ttl db))) c
            = count_list (games db) c - count_list ?dying c"
        using that(3) by (simp add: sweep games_fold_dropCommands count_list_fold_delete
            del: findOne_status)
      also have "\<dots> = 0"
        using that(2) by (simp add: count_list_filter del: findOne_status)
      finally show ?thesis by (simp add: count_list_0_iff)
    qed
    have logged: "ConsoleError \<in> set (fst (expirySweep f currentDate ttl db))"
      if "\<exists>c \<in> set (games db). ?die c \<and> (dropFails f c \<or> deleteFails f c)"
    proof -
      from that have "list_ex (\<lambda>c. dropFails f c \<or> deleteFails f c) ?dying"
        by (auto simp add: list_ex_iff simp del: findOne_status)
      then show ?thesis by (simp add: log del: findOne_status)
    qed
    from dropped deleted logged show ?thesis by blast
  qed
  from aborts runs show ?thesis by blast
qed

text \<open>
  The two expired sessions of \<open>expiredPair\<close>: with a failing read of session 1 nothing is
  destroyed; with a failing drop of session 1, session 2 is destroyed all the same.
\<close>

theorem expirySweep_failure_isolation_witness:
  "expirySweep brokenRead 2000000 (msToLive False) expiredPair = ([ConsoleError], expiredPair)
   \<and> 2 \<notin> set (games (snd (expirySweep brokenDrop 2000000 (msToLive False) expiredPair)))
   \<and> gameDbOf (snd (expirySweep brokenDrop 2000000 (msToLive False) expiredPair)) 2 = emptyDb
   \<and> ConsoleError \<in> set (fst (expirySweep brokenDrop 2000000 (msToLive False) expiredPair))"
proof -
  have bad: "listFails brokenRead \<or> (\<exists>c \<in> set (games expiredPair). readFails brokenRead c)"
    by (simp add: expiredPair_eq brokenRead_def)
  have ok: "\<not> listFails brokenDrop \<and> (\<forall>c \<in> set (games expiredPair). \<not> readFails brokenDrop c)"
    by (simp add: expiredPair_eq brokenDrop_def)
  have two: "2 \<in> set (games expiredPair)"
    "shouldDie 2000000 (msToLive False) (findOne statusDoc [] (status (gameDbOf expiredPair 2)))"
    "\<not> dropFails brokenDrop 2" "\<not> deleteFails brokenDrop 2"
    by (simp_all add: expiredPair_eq brokenDrop_def shouldDie_def msToLive_def)
  have one: "1 \<in> set (games expiredPair)"
    "shouldDie 2000000 (msToLive False) (findOne statusDoc [] (status (gameDbOf expiredPair 1)))"
    "dropFails brokenDrop 1"
    by (simp_all add: expiredPair_eq brokenDrop_def shouldDie_def msToLive_def)
  from expirySweep_failure_isolation [of brokenRead expiredPair 2000000 "msToLive False"] bad
  have first: "expirySweep brokenRead 2000000 (msToLive False) expiredPair
                 = ([ConsoleError], expiredPair)"
    by blast
  from expirySweep_failure_isolation [of brokenDrop expiredPair 2000000 "msToLive False"]
    ok two one
  have "2 \<notin> set (games (snd (expirySweep brokenDrop 2000000 (msToLive False) expiredPair)))
   \<and> gameDbOf (snd (expirySweep brokenDrop 2000000 (msToLive False) expiredPair)) 2 = emptyDb
   \<and> ConsoleError \<in> set (fst (expirySweep brokenDrop 2000000 (msToLive False) expiredPair))"
    by blast
  with first show ?thesis by blast
qed

text \<open>
  C8 as stated fails for a read failure: session 2 is registered, readable and expired,
  the read of session 1 fails, and session 2 is still there after the sweep.
\<close>

theorem expirySweep_read_failure_aborts_all:
  "2 \<in> set (games expiredPair)
   \<and> \<not> readFails brokenRead 2
   \<and> shouldDie 2000000 (msToLive False) (findOne statusDoc [] (status (gameDbOf expiredPair 2)))
   \<and> expirySweep brokenRead 2000000 (msToLive False) expiredPair = ([ConsoleError], expiredPair)
   \<and> 2 \<in> set (games (snd (expirySweep brokenRead 2000000 (msToLive False) expiredPair)))
   \<and> gameDbOf (snd (expirySweep brokenRead 2000000 (msToLive False) expiredPair)) 2
       \<noteq> emptyDb"
  by (simp add: expiredPair_eq brokenRead_def noFaults_def expirySweep_def shouldDie_def
      msToLive_def emptyDb_def)

section \<open>The status push\<close>

text \<open>
  What the handlers of \<open>authRequest\<close> and \<open>changeName\<close> send to the room after a
  success, and what \<open>getGameStatus\<close> returns: the snapshot of the whole roster while the
  status has \<open>playing = false\<close>, \<open>undefined\<close> while \<open>playing\<close> is true, and the
  internal-error object whenever a read fails or the status document is missing, the
  exception being caught.
\<close>

lemma status_push_cases:
  "(\<forall>reply. fst (authUser sha256 db socketId authKey) = Inr reply \<longrightarrow>
      fst (onAuthRequest sha256 storeFails db socketId player authKey) =
        [SocketJoin (authKey.gameCode authKey),
         RoomEmit (authKey.gameCode authKey)
           (GameStatusEvent
              (getGameStatus storeFails (gameDbOf db (authKey.gameCode authKey))))])
   \<and> (\<forall>p r. player = Some p \<and> authenticated p \<and>
          fst (changeName db (authReply.gameCode p) (authReply.name p) newName) = Inr r \<longrightarrow>
      fst (onChangeName storeFails db player newName) =
        [SocketEmit (NameChanged newName),
         RoomEmit (authReply.gameCode p)
           (GameStatusEvent
              (getGameStatus storeFails
                 (gameDbOf (snd (changeName db (authReply.gameCode p) (authReply.name p) newName))
                    (authReply.gameCode p))))])
   \<and> (\<not> storeFails \<and> (\<exists>s rest. status gameDb = s # rest \<and> \<not> playing s) \<longrightarrow>
        getGameStatus storeFails gameDb =
          Lobby (map (\<lambda>p. LobbyPlayer (player.name p) (order p) None) (players gameDb)))
   \<and> (\<not> storeFails \<and> (\<exists>s rest. status gameDb = s # rest \<and> playing s) \<longrightarrow>
        getGameStatus storeFails gameDb = Undefined)
   \<and> ((\<exists>e. getGameStatusTry storeFails gameDb = Inl e) \<longleftrightarrow>
        storeFails \<or> status gameDb = [])
   \<and> (\<forall>e. getGameStatusTry storeFails gameDb = Inl e \<longrightarrow>
        getGameStatus storeFails gameDb = InternalError)"
proof -
  have handler: "fst (onAuthRequest sha256 storeFails db socketId player authKey) =
        [SocketJoin (authKey.gameCode authKey),
         RoomEmit (authKey.gameCode authKey)
           (GameStatusEvent
              (getGameStatus storeFails (gameDbOf db (authKey.gameCode authKey))))]"
    if ok: "fst (authUser sha256 db socketId authKey) = Inr reply" for reply
  proof -
    have "reply = \<lparr>authenticated = True, name = authKey.name authKey,
                   gameCode = authKey.gameCode authKey\<rparr>"
      using ok by (auto simp add: authUser_fst split: option.splits if_splits)
    then have "authUser sha256 db socketId authKey =
        (Inr \<lparr>authenticated = True, name = authKey.name authKey,
              gameCode = authKey.gameCode authKey\<rparr>, db)"
      using ok authUser_store [of sha256 db socketId authKey]
      by (metis prod.collapse)
    then show ?thesis by (simp add: onAuthRequest_def)
  qed
  have rename: "fst (onChangeName storeFails db player newName) =
        [SocketEmit (NameChanged newName),
         RoomEmit (authReply.gameCode p)
           (GameStatusEvent
              (getGameStatus storeFails
                 (gameDbOf (snd (changeName db (authReply.gameCode p) (authReply.name p) newName))
                    (authReply.gameCode p))))]"
    if "player = Some p \<and> authenticated p \<and>
          fst (changeName db (authReply.gameCode p) (authReply.name p) newName) = Inr r" for p r
  proof -
    from that obtain db' where
      "changeName db (authReply.gameCode p) (authReply.name p) newName = (Inr r, db')"
      by (metis prod.collapse)
    with that show ?thesis by (simp add: onChangeName_def)
  qed
  have lobby: "getGameStatus storeFails gameDb =
          Lobby (map (\<lambda>p. LobbyPlayer (player.name p) (order p) None) (players gameDb))"
    if "\<not> storeFails \<and> (\<exists>s rest. status gameDb = s # rest \<and> \<not> playing s)"
    using that by (auto simp add: getGameStatus_def getGameStatusTry_cases)
  have playing: "getGameStatus storeFails gameDb = Undefined"
    if "\<not> storeFails \<and> (\<exists>s rest. status gameDb = s # rest \<and> playing s)"
    using that by (auto simp add: getGameStatus_def getGameStatusTry_cases)
  have throws: "(\<exists>e. getGameStatusTry storeFails gameDb = Inl e) \<longleftrightarrow>
        storeFails \<or> status gameDb = []"
    by (auto simp add: getGameStatusTry_cases split: list.splits)
  have caught: "getGameStatus storeFails gameDb = InternalError"
    if "getGameStatusTry storeFails gameDb = Inl e" for e
    using that by (simp add: getGameStatus_def)
  from handler rename lobby playing throws caught show ?thesis by blast
qed

text \<open>
  C9. The claim is that the status push emits the snapshot of the roster while \<open>playing\<close>
  is false, emits nothing while \<open>playing\<close> is true, and turns a failure of the reads into
  the internal-error object. The first and the last hold (\<open>status_push_cases\<close>). While
  \<open>playing\<close> is true the code does emit: \<open>getGameStatus\<close> returns \<open>undefined\<close> and the
  handler sends it to the room in a \<open>gameStatus\<close> event, as here after Alice's
  authentication in \<open>playingLobby\<close>.
\<close>

theorem status_push_emits_while_playing:
  "status (gameDbOf playingLobby 5) = [\<lparr>playing = True, lastSignificantChange = 0\<rparr>]
   \<and> fst (onAuthRequest digest False playingLobby ''socket-1'' None
            \<lparr>authKey.gameCode = 5, name = ''Alice'', key = ''K1''\<rparr>)
       = [SocketJoin 5, RoomEmit 5 (GameStatusEvent Undefined)]"
  by (simp add: playingLobby_def aliceLobby_eq onAuthRequest_def authUser_def parseInt_def
      alice_def setStatus_def setPlayers_def getGameStatus_def getGameStatusTry_def)

end
